theory Spec2Isabelle
  imports Main
begin

section \<open>Python strings and \<open>os.path\<close> (posixpath)\<close>

text \<open>
  \<open>tool.py\<close> manipulates paths with \<open>str.startswith\<close>, \<open>os.path.dirname\<close>,
  \<open>os.path.basename\<close>, \<open>os.path.splitext\<close> and \<open>os.path.join\<close>. They are embedded
  as the POSIX implementations compute them (\<open>posixpath.py\<close>, \<open>genericpath.py\<close>).
\<close>

definition startswith :: "string \<Rightarrow> string \<Rightarrow> bool" where
  "startswith s p = (take (length p) s = p)"

definition endswith :: "string \<Rightarrow> string \<Rightarrow> bool" where
  "endswith s p = (length p \<le> length s \<and> drop (length s - length p) s = p)"

definition rfind :: "string \<Rightarrow> char \<Rightarrow> int" where
  \<comment> \<open>\<open>s.rfind(c)\<close>: the highest index of \<open>c\<close>, or \<open>-1\<close>.\<close>
  "rfind s c =
     (if c \<in> set s
      then int (length s) - 1 - int (length (takeWhile (\<lambda>x. x \<noteq> c) (rev s)))
      else - 1)"

definition rstrip :: "string \<Rightarrow> char \<Rightarrow> string" where
  "rstrip s c = rev (dropWhile (\<lambda>x. x = c) (rev s))"

definition path_basename :: "string \<Rightarrow> string" where
  \<comment> \<open>\<open>i = p.rfind('/') + 1; return p[i:]\<close>\<close>
  "path_basename p = drop (nat (rfind p (CHR ''/'') + 1)) p"

definition path_dirname :: "string \<Rightarrow> string" where
  \<comment> \<open>\<open>head = p[:i]; if head and head != '/'*len(head): head = head.rstrip('/')\<close>\<close>
  "path_dirname p =
     (let head = take (nat (rfind p (CHR ''/'') + 1)) p
      in if head \<noteq> [] \<and> head \<noteq> replicate (length head) (CHR ''/'')
         then rstrip head (CHR ''/'') else head)"

definition path_join :: "string \<Rightarrow> string \<Rightarrow> string" where
  "path_join a b =
     (if startswith b ''/'' then b
      else if a = [] \<or> endswith a ''/'' then a @ b
      else a @ ''/'' @ b)"

fun only_dots :: "string \<Rightarrow> bool" where
  \<comment> \<open>the loop of \<open>_splitext\<close> that skips leading dots: it runs off the end of
      \<open>p[filenameIndex:dotIndex]\<close> exactly when that slice holds nothing but dots\<close>
  "only_dots [] = True"
| "only_dots (c # cs) = (if c \<noteq> CHR ''.'' then False else only_dots cs)"

definition path_splitext :: "string \<Rightarrow> string \<times> string" where
  "path_splitext p =
     (let sepIndex = rfind p (CHR ''/'');
          dotIndex = rfind p (CHR ''.'')
      in if dotIndex > sepIndex \<and>
            \<not> only_dots (drop (nat (sepIndex + 1)) (take (nat dotIndex) p))
         then (take (nat dotIndex) p, drop (nat dotIndex) p)
         else (p, []))"

definition is_space :: "char \<Rightarrow> bool" where
  "is_space c = (c \<in> set [CHR '' '', CHR 0x09, CHR 0x0A, CHR 0x0B, CHR 0x0C, CHR 0x0D])"

definition strip :: "string \<Rightarrow> string" where
  \<comment> \<open>\<open>bytes.strip()\<close>: ASCII whitespace removed at both ends\<close>
  "strip s = rev (dropWhile is_space (rev (dropWhile is_space s)))"

definition list_insert :: "'a list \<Rightarrow> nat \<Rightarrow> 'a \<Rightarrow> 'a list" where
  \<comment> \<open>\<open>xs.insert(i, x)\<close> for \<open>i \<ge> 0\<close>\<close>
  "list_insert xs i x = take i xs @ x # drop i xs"

fun components :: "string \<Rightarrow> string list" where
  \<comment> \<open>the pieces of a path between its slashes\<close>
  "components [] = [[]]"
| "components (c # cs) =
     (if c = CHR ''/'' then [] # components cs
      else case components cs of [] \<Rightarrow> [[c]] | x # xs \<Rightarrow> (c # x) # xs)"

definition ancestors :: "string \<Rightarrow> string list" where
  \<comment> \<open>the non-empty proper prefixes of a path that end just before a slash\<close>
  "ancestors p = map (\<lambda>i. take i p) (filter (\<lambda>i. p ! i = CHR ''/'') [1..<length p])"

fun truthy :: "string option \<Rightarrow> bool" where
  \<comment> \<open>the truth value Python gives an \<open>Optional[str]\<close>: \<open>None\<close> and \<open>''\<close> are false\<close>
  "truthy None = False"
| "truthy (Some s) = (s \<noteq> [])"


section \<open>The world outside the module: files, archives, child processes\<close>

text \<open>
  Exceptions carry the names of the Python classes raised; \<open>OSError\<close> stands for an
  \<open>OSError\<close> of no class named here (name too long, no space left, permission denied).
\<close>

datatype exception =
    FileNotFoundError
  | NotADirectoryError
  | FileExistsError
  | IsADirectoryError
  | SameFileError
  | BadZipFile
  | KeyError
  | ValueError
  | RuntimeError
  | NotImplementedError
  | OSError
  | CalledProcessError int string

text \<open>
  A zip archive is the list of its members in central-directory order, each a \<open>ZipInfo\<close>
  header with the stored data. Member names may repeat. A member whose data cannot be
  read back carries, in place of the data, the exception that reading it raises
  (\<open>RuntimeError\<close> for an encrypted member, \<open>NotImplementedError\<close> for a compression
  method \<open>zipfile\<close> does not support, \<open>BadZipFile\<close> for a failed CRC check).
  \<open>attrs\<close> stands for the header fields that \<open>ZipFile.writestr\<close> carries over from the
  \<open>ZipInfo\<close> it is given (date, compression method, comment, extra field); the fields
  \<open>zipfile\<close> recomputes while writing (sizes, CRC, offsets, flag bits) are not modelled.
\<close>

type_synonym bytes = string

record zipinfo =
  filename :: string
  attrs :: "nat list"

type_synonym archive = "(zipinfo \<times> (exception + bytes)) list"

datatype content = ZipData archive | RawData bytes

datatype node = RegularFile content | Directory

type_synonym filesystem = "string \<Rightarrow> node option"

text \<open>
  The file system maps a path, as the string the program holds, to what is found there;
  two different strings are two different places, and the map is flat: that something
  exists at a path says nothing about the directories above it. Links and permissions
  are left to the environment, as far as the operations can meet them (see below):
  writing at one path changes what is found at that path only.

  A child process either cannot be started (\<open>subprocess\<close> raises, for instance when the
  executable is not on the search path) or runs, returning an exit status and its combined
  output and leaving the file system as it pleases. The text of the output stands for the
  bytes already decoded.
\<close>

datatype proc_result = Exited int string filesystem | LaunchError exception

text \<open>
  Writing a file can fail for reasons outside the program (no permission, disk full).
  The environment says whether the one file the operation writes can be opened for
  writing, and whether the write that follows succeeds; a file opened for writing is
  truncated at once, so a failed write leaves it empty here.
\<close>

datatype disk_fault = NoFault | OpenFails | WriteFails

text \<open>
  Two more facts belong to the environment. \<open>remove_error\<close> is the exception
  \<open>os.remove\<close> raises, if it raises at all (the directory may forbid unlinking).
  \<open>samefile\<close> says of two paths at which something exists whether they lead to one and
  the same file, as a hard link or a symbolic link makes them do; a path is always the
  same file as itself.
\<close>

record env =
  program :: "string list \<Rightarrow> filesystem \<Rightarrow> proc_result"
  disk_fault :: disk_fault
  remove_error :: "exception option"
  samefile :: "string \<Rightarrow> string \<Rightarrow> bool"

record world =
  fs :: filesystem
  invocations :: "string list list"

definition stat :: "world \<Rightarrow> string \<Rightarrow> node option" where
  \<comment> \<open>\<open>os.stat('')\<close> fails: the empty path names nothing\<close>
  "stat w p = (if p = [] then None else fs w p)"

definition isfile :: "world \<Rightarrow> string \<Rightarrow> bool" where
  "isfile w p = (case stat w p of Some (RegularFile c) \<Rightarrow> True | _ \<Rightarrow> False)"

definition isdir :: "world \<Rightarrow> string \<Rightarrow> bool" where
  "isdir w p = (stat w p = Some Directory)"

definition check_output :: "env \<Rightarrow> world \<Rightarrow> string list \<Rightarrow> (exception + string) \<times> world" where
  \<comment> \<open>\<open>subprocess.check_output(cmd, stderr=subprocess.STDOUT)\<close>\<close>
  "check_output e w cmd =
     (case program e cmd (fs w) of
        LaunchError x \<Rightarrow> (Inl x, w\<lparr>invocations := invocations w @ [cmd]\<rparr>)
      | Exited rc out fs' \<Rightarrow>
          (if rc = 0 then Inr out else Inl (CalledProcessError rc out),
           \<lparr>fs = fs', invocations = invocations w @ [cmd]\<rparr>))"

definition run_tool :: "env \<Rightarrow> world \<Rightarrow> string list \<Rightarrow> (exception + string) \<times> world" where
  \<comment> \<open>the \<open>try\<close> block shared by all operations:
      \<open>output = subprocess.check_output(cmd, ...).strip(); return output.decode()\<close>,
      both \<open>except\<close> branches log and re-raise\<close>
  "run_tool e w cmd =
     (case check_output e w cmd of
        (Inl x, w') \<Rightarrow> (Inl x, w')
      | (Inr out, w') \<Rightarrow> (Inr (strip out), w'))"

definition tool_path :: "(string \<Rightarrow> string option) \<Rightarrow> string \<Rightarrow> string \<Rightarrow> string" where
  \<comment> \<open>\<open>__init__\<close>: the environment variable if set, else the bare command name\<close>
  "tool_path environ var fallback = (case environ var of Some p \<Rightarrow> p | None \<Rightarrow> fallback)"

definition apktool_path :: "(string \<Rightarrow> string option) \<Rightarrow> string" where
  "apktool_path environ = tool_path environ ''APKTOOL_PATH'' ''apktool''"

definition jarsigner_path :: "(string \<Rightarrow> string option) \<Rightarrow> string" where
  "jarsigner_path environ = tool_path environ ''JARSIGNER_PATH'' ''jarsigner''"

definition zipalign_path :: "(string \<Rightarrow> string option) \<Rightarrow> string" where
  "zipalign_path environ = tool_path environ ''ZIPALIGN_PATH'' ''zipalign''"


section \<open>Apktool\<close>

definition default_output_dir :: "string \<Rightarrow> string" where
  "default_output_dir apk_path =
     path_join (path_dirname apk_path) (fst (path_splitext (path_basename apk_path)))"

definition resolve_output_dir :: "world \<Rightarrow> string \<Rightarrow> string option \<Rightarrow> exception + string" where
  \<comment> \<open>lines 31-44 of \<open>decode\<close>\<close>
  "resolve_output_dir w apk_path output_dir_path =
     (case output_dir_path of
        None \<Rightarrow> Inr (default_output_dir apk_path)
      | Some d \<Rightarrow>
          (if \<not> truthy (Some d) then Inr (default_output_dir apk_path)
           else if \<not> isdir w (path_dirname d) then Inl NotADirectoryError
           else Inr d))"

definition decode_cmd :: "string \<Rightarrow> string \<Rightarrow> string \<Rightarrow> bool \<Rightarrow> string list" where
  "decode_cmd self apk_path output_dir_path force =
     (let cmd = [self, ''d'', apk_path, ''-o'', output_dir_path]
      in if force then list_insert cmd 2 ''--force'' else cmd)"

definition decode ::
  "env \<Rightarrow> string \<Rightarrow> world \<Rightarrow> string \<Rightarrow> string option \<Rightarrow> bool \<Rightarrow> (exception + string) \<times> world"
where
  "decode e self w apk_path output_dir_path force =
     (if \<not> isfile w apk_path then (Inl FileNotFoundError, w)
      else case resolve_output_dir w apk_path output_dir_path of
             Inl x \<Rightarrow> (Inl x, w)
           | Inr out_dir \<Rightarrow>
               (if isdir w out_dir \<and> \<not> force then (Inl FileExistsError, w)
                else run_tool e w (decode_cmd self apk_path out_dir force)))"

definition build_cmd :: "string \<Rightarrow> string \<Rightarrow> string option \<Rightarrow> string list" where
  "build_cmd self source_dir_path output_apk_path =
     (let cmd = [self, ''b'', ''--force-all'', source_dir_path]
      in case output_apk_path of
           None \<Rightarrow> cmd
         | Some out \<Rightarrow> (if truthy (Some out) then cmd @ [''-o'', out] else cmd))"

definition build ::
  "env \<Rightarrow> string \<Rightarrow> world \<Rightarrow> string \<Rightarrow> string option \<Rightarrow> (exception + string) \<times> world"
where
  "build e self w source_dir_path output_apk_path =
     (if \<not> isdir w source_dir_path then (Inl NotADirectoryError, w)
      else run_tool e w (build_cmd self source_dir_path output_apk_path))"


section \<open>Jarsigner\<close>

definition sign_cmd :: "string \<Rightarrow> string \<Rightarrow> string \<Rightarrow> string \<Rightarrow> string \<Rightarrow> string list" where
  "sign_cmd self apk_path keystore_file_path keystore_password key_alias =
     [self,
      ''-tsa'', ''http://timestamp.comodoca.com/rfc3161'',
      ''-sigalg'', ''SHA1withRSA'', ''-digestalg'', ''SHA1'',
      ''-keystore'', keystore_file_path,
      ''-storepass'', keystore_password,
      apk_path, key_alias]"

definition sign ::
  "env \<Rightarrow> string \<Rightarrow> world \<Rightarrow> string \<Rightarrow> string \<Rightarrow> string \<Rightarrow> string \<Rightarrow> (exception + string) \<times> world"
where
  "sign e self w apk_path keystore_file_path keystore_password key_alias =
     (if \<not> isfile w apk_path then (Inl FileNotFoundError, w)
      else run_tool e w (sign_cmd self apk_path keystore_file_path keystore_password key_alias))"

definition name_too_long :: "string \<Rightarrow> bool" where
  \<comment> \<open>the limits of Linux: a component of more than 255 bytes, a path of 4096 or more\<close>
  "name_too_long p = (4096 \<le> length p \<or> list_ex (\<lambda>c. 255 < length c) (components p))"

definition open_error :: "world \<Rightarrow> string \<Rightarrow> exception" where
  \<comment> \<open>what \<open>open(p)\<close> raises for a path at which nothing is found: \<open>ValueError\<close> for
      an embedded NUL, \<open>OSError\<close> for a name that is too long, \<open>NotADirectoryError\<close> when
      the path passes through a regular file, and \<open>FileNotFoundError\<close> otherwise\<close>
  "open_error w p =
     (if CHR 0x00 \<in> set p then ValueError
      else if name_too_long p then OSError
      else if list_ex (isfile w) (ancestors p) then NotADirectoryError
      else FileNotFoundError)"

definition open_zip :: "world \<Rightarrow> string \<Rightarrow> exception + archive" where
  \<comment> \<open>\<open>zipfile.ZipFile(apk_path, 'r')\<close>\<close>
  "open_zip w p =
     (case stat w p of
        None \<Rightarrow> Inl (open_error w p)
      | Some Directory \<Rightarrow> Inl IsADirectoryError
      | Some (RegularFile (RawData b)) \<Rightarrow> Inl BadZipFile
      | Some (RegularFile (ZipData a)) \<Rightarrow> Inr a)"

definition infolist :: "archive \<Rightarrow> zipinfo list" where
  "infolist a = map fst a"

definition zip_read :: "archive \<Rightarrow> string \<Rightarrow> exception + bytes" where
  \<comment> \<open>\<open>ZipFile.read(name)\<close> looks the name up in \<open>NameToInfo\<close>, a dict filled in
      central-directory order: of several members with one name the last is read,
      and reading it returns its data or raises what it raises\<close>
  "zip_read a name =
     (case filter (\<lambda>m. filename (fst m) = name) a of
        [] \<Rightarrow> Inl KeyError
      | m # ms \<Rightarrow> snd (last (m # ms)))"

definition writestr :: "archive \<Rightarrow> zipinfo \<Rightarrow> bytes \<Rightarrow> archive" where
  "writestr buf zinfo d = buf @ [(zinfo, Inr d)]"

definition is_signature :: "zipinfo \<Rightarrow> bool" where
  "is_signature entry = startswith (filename entry) ''META-INF/''"

fun write_unsigned :: "archive \<Rightarrow> zipinfo list \<Rightarrow> archive \<Rightarrow> exception + archive" where
  \<comment> \<open>the \<open>for\<close> loop of lines 156-158, filling the in-memory archive \<open>buf\<close>\<close>
  "write_unsigned current_apk [] buf = Inr buf"
| "write_unsigned current_apk (entry # rest) buf =
     (if \<not> is_signature entry
      then (case zip_read current_apk (filename entry) of
              Inl x \<Rightarrow> Inl x
            | Inr d \<Rightarrow> write_unsigned current_apk rest (writestr buf entry d))
      else write_unsigned current_apk rest buf)"

definition write_back :: "env \<Rightarrow> world \<Rightarrow> string \<Rightarrow> archive \<Rightarrow> exception option \<times> world" where
  \<comment> \<open>\<open>with open(apk_path, 'wb') as f: f.write(buffer.getvalue())\<close>. Opening for writing
      truncates the file; a write that then fails leaves it truncated.\<close>
  "write_back e w p buf =
     (case disk_fault e of
        OpenFails \<Rightarrow> (Some OSError, w)
      | WriteFails \<Rightarrow> (Some OSError, w\<lparr>fs := (fs w)(p \<mapsto> RegularFile (RawData []))\<rparr>)
      | NoFault \<Rightarrow> (None, w\<lparr>fs := (fs w)(p \<mapsto> RegularFile (ZipData buf))\<rparr>))"

definition remove_signature :: "env \<Rightarrow> world \<Rightarrow> string \<Rightarrow> exception option \<times> world" where
  \<comment> \<open>the \<open>try\<close> block of \<open>resign\<close> (lines 145-166); \<open>Some x\<close> is the exception re-raised\<close>
  "remove_signature e w apk_path =
     (case open_zip w apk_path of
        Inl x \<Rightarrow> (Some x, w)
      | Inr current_apk \<Rightarrow>
          (if list_ex is_signature (infolist current_apk)
           then (case write_unsigned current_apk (infolist current_apk) [] of
                   Inl x \<Rightarrow> (Some x, w)
                 | Inr buf \<Rightarrow> write_back e w apk_path buf)
           else (None, w)))"

definition resign ::
  "env \<Rightarrow> string \<Rightarrow> world \<Rightarrow> string \<Rightarrow> string \<Rightarrow> string \<Rightarrow> string \<Rightarrow> (exception + string) \<times> world"
where
  "resign e self w apk_path keystore_file_path keystore_password key_alias =
     (case remove_signature e w apk_path of
        (Some x, w') \<Rightarrow> (Inl x, w')
      | (None, w') \<Rightarrow> sign e self w' apk_path keystore_file_path keystore_password key_alias)"


section \<open>Zipalign\<close>

definition apk_copy_path :: "string \<Rightarrow> string" where
  "apk_copy_path apk_path =
     path_join (path_dirname apk_path) (fst (path_splitext (path_basename apk_path)))
       @ ''.copy.apk''"

definition copy2 :: "env \<Rightarrow> world \<Rightarrow> string \<Rightarrow> string \<Rightarrow> exception option \<times> world" where
  \<comment> \<open>\<open>shutil.copy2(src, dst)\<close>: a destination that is a directory receives the file
      under the source's base name; then \<open>copyfile\<close> refuses to copy a file onto itself
      (source and target both exist and are the same file), opens the source, and opens
      the target for writing\<close>
  "copy2 e w src dst =
     (let target = (if isdir w dst then path_join dst (path_basename src) else dst)
      in if stat w src \<noteq> None \<and> stat w target \<noteq> None \<and>
            (target = src \<or> samefile e src target)
         then (Some SameFileError, w)
         else case stat w src of
           None \<Rightarrow> (Some FileNotFoundError, w)
         | Some Directory \<Rightarrow> (Some IsADirectoryError, w)
         | Some (RegularFile c) \<Rightarrow>
             (if isdir w target then (Some IsADirectoryError, w)
              else case disk_fault e of
                     OpenFails \<Rightarrow> (Some OSError, w)
                   | WriteFails \<Rightarrow>
                       (Some OSError, w\<lparr>fs := (fs w)(target \<mapsto> RegularFile (RawData []))\<rparr>)
                   | NoFault \<Rightarrow> (None, w\<lparr>fs := (fs w)(target \<mapsto> RegularFile c)\<rparr>)))"

definition os_remove :: "env \<Rightarrow> world \<Rightarrow> string \<Rightarrow> exception option \<times> world" where
  \<comment> \<open>\<open>os.remove(p)\<close>, called on a regular file only: it unlinks the name or raises\<close>
  "os_remove e w p =
     (case remove_error e of
        Some x \<Rightarrow> (Some x, w)
      | None \<Rightarrow> (None, w\<lparr>fs := (fs w)(p := None)\<rparr>))"

definition align_cmd :: "string \<Rightarrow> string \<Rightarrow> string \<Rightarrow> string list" where
  "align_cmd self apk_copy apk_path = [self, ''-f'', ''4'', apk_copy, apk_path]"

definition align_try :: "env \<Rightarrow> string \<Rightarrow> world \<Rightarrow> string \<Rightarrow> (exception + string) \<times> world" where
  \<comment> \<open>the body of the \<open>try\<close> (lines 192-206)\<close>
  "align_try e self w apk_path =
     (case copy2 e w apk_path (apk_copy_path apk_path) of
        (Some x, w') \<Rightarrow> (Inl x, w')
      | (None, w') \<Rightarrow> run_tool e w' (align_cmd self (apk_copy_path apk_path) apk_path))"

definition align_finally :: "env \<Rightarrow> world \<Rightarrow> string \<Rightarrow> exception option \<times> world" where
  \<comment> \<open>the \<open>finally\<close> clause (lines 207-210)\<close>
  "align_finally e w apk_copy =
     (if isfile w apk_copy then os_remove e w apk_copy else (None, w))"

definition align :: "env \<Rightarrow> string \<Rightarrow> world \<Rightarrow> string \<Rightarrow> (exception + string) \<times> world" where
  \<comment> \<open>an exception raised in the \<open>finally\<close> clause replaces the outcome of the \<open>try\<close>\<close>
  "align e self w apk_path =
     (if \<not> isfile w apk_path then (Inl FileNotFoundError, w)
      else case align_try e self w apk_path of
             (r, w') \<Rightarrow>
               (case align_finally e w' (apk_copy_path apk_path) of
                  (Some x, w'') \<Rightarrow> (Inl x, w'')
                | (None, w'') \<Rightarrow> (r, w'')))"


section \<open>Example environments\<close>

text \<open>
  Concrete worlds for evaluating the operations: child processes that touch no file,
  file systems given as association lists, and a few small archives.
\<close>

definition inert_program :: "int \<Rightarrow> string \<Rightarrow> string list \<Rightarrow> filesystem \<Rightarrow> proc_result" where
  "inert_program rc out cmd f = Exited rc out f"

definition world_of :: "(string \<times> node) list \<Rightarrow> world" where
  "world_of files = \<lparr>fs = map_of files, invocations = []\<rparr>"

definition quiet_env :: env where
  "quiet_env =
     \<lparr>program = inert_program 0 ''ok'', disk_fault = NoFault, remove_error = None,
      samefile = (\<lambda>a b. a = b)\<rparr>"

definition failing_env :: "disk_fault \<Rightarrow> env" where
  "failing_env f =
     \<lparr>program = inert_program 1 ''error'', disk_fault = f, remove_error = None,
      samefile = (\<lambda>a b. a = b)\<rparr>"



definition member :: "string \<Rightarrow> nat list \<Rightarrow> string \<Rightarrow> zipinfo \<times> (exception + bytes)" where
  "member name hdr d = (\<lparr>filename = name, attrs = hdr\<rparr>, Inr d)"

definition signed_apk :: archive where
  "signed_apk = [member ''classes.dex'' [1] ''code'', member ''META-INF/MANIFEST.MF'' [2] ''sig'']"

definition damaged_apk :: archive where
  "damaged_apk =
     [(\<lparr>filename = ''classes.dex'', attrs = [1]\<rparr>, Inl RuntimeError),
      member ''META-INF/MANIFEST.MF'' [2] ''sig'']"

definition duplicate_apk :: archive where
  "duplicate_apk =
     [member ''res/a.txt'' [1] ''first'', member ''res/a.txt'' [2] ''second'',
      member ''META-INF/CERT.RSA'' [3] ''sig'']"

definition plain_apk :: archive where
  "plain_apk = [member ''classes.dex'' [1] ''code'', member ''res/icon.png'' [2] ''img'']"

definition lookalike_apk :: archive where
  "lookalike_apk = [member ''meta-inf/x'' [2] ''a'', member ''META-INF'' [3] ''b'']"

definition app_world :: "archive \<Rightarrow> world" where
  "app_world a = world_of [(''app.apk'', RegularFile (ZipData a))]"

definition junk_world :: world where
  "junk_world = world_of [(''app.apk'', RegularFile (RawData ''junk''))]"

definition decode_world :: world where
  "decode_world =
     world_of [(''in.apk'', RegularFile (ZipData plain_apk)), (''work'', Directory),
               (''work/out'', Directory), (''out'', Directory)]"

definition occupied_world :: world where
  "occupied_world =
     world_of [(''app.apk'', RegularFile (ZipData signed_apk)), (''app.copy.apk'', Directory)]"




section \<open>Basic facts\<close>

lemma run_tool_invocations:
  "invocations (snd (run_tool e w cmd)) = invocations w @ [cmd]"
  by (simp add: run_tool_def check_output_def split: proc_result.split)




lemma app_world_stat: "stat (app_world a) ''app.apk'' = Some (RegularFile (ZipData a))"
  by (simp add: stat_def app_world_def world_of_def)


section \<open>Preconditions are checked before any child process\<close>










section \<open>The command lines\<close>

text \<open>
  C7. For an archive that is a regular file, \<open>sign\<close> runs exactly the command
  \<open>self -tsa http://timestamp.comodoca.com/rfc3161 -sigalg SHA1withRSA -digestalg SHA1
  -keystore ks -storepass pw apk_path alias\<close>: its outcome is the outcome of that child
  process, and that argument list is the one invocation added to the world.
\<close>

theorem sign_invocation:
  "isfile w apk_path \<Longrightarrow>
   sign e self w apk_path ks pw key_alias =
     run_tool e w [self, ''-tsa'', ''http://timestamp.comodoca.com/rfc3161'',
                   ''-sigalg'', ''SHA1withRSA'', ''-digestalg'', ''SHA1'',
                   ''-keystore'', ks, ''-storepass'', pw, apk_path, key_alias]
   \<and> invocations (snd (sign e self w apk_path ks pw key_alias)) =
     invocations w @ [[self, ''-tsa'', ''http://timestamp.comodoca.com/rfc3161'',
                   ''-sigalg'', ''SHA1withRSA'', ''-digestalg'', ''SHA1'',
                   ''-keystore'', ks, ''-storepass'', pw, apk_path, key_alias]]"
  by (simp add: sign_def sign_cmd_def run_tool_invocations)

theorem sign_invocation_witness:
  "isfile (app_world plain_apk) ''app.apk'' \<and>
   invocations (snd (sign quiet_env ''jarsigner'' (app_world plain_apk)
       ''app.apk'' ''my.keystore'' ''secret'' ''key0'')) =
     [[''jarsigner'', ''-tsa'', ''http://timestamp.comodoca.com/rfc3161'',
       ''-sigalg'', ''SHA1withRSA'', ''-digestalg'', ''SHA1'',
       ''-keystore'', ''my.keystore'', ''-storepass'', ''secret'', ''app.apk'', ''key0'']]"
proof -
  have f: "isfile (app_world plain_apk) ''app.apk''"
    by (simp add: isfile_def app_world_stat)
  show ?thesis
    using f conjunct2 [OF sign_invocation [OF f, of quiet_env "''jarsigner''" "''my.keystore''" "''secret''" "''key0''"]]
    by (simp add: app_world_def world_of_def)
qed

text \<open>
  C4 asks that \<open>decode\<close> on an existing archive fail with \<open>FileExistsError\<close> when the
  output directory exists, and with \<open>force\<close> run \<open>self d --force apk_path -o out_dir\<close>.
  For an output directory given as a bare relative name the code does neither: the
  directory part of \<open>out\<close> is the empty string, which \<open>os.path.isdir\<close> rejects, so line 40
  raises \<open>NotADirectoryError\<close> before the directory \<open>out\<close> itself is looked at, with
  \<open>force\<close> or without, although the directory that holds \<open>out\<close> (the working
  directory) exists.
\<close>

theorem decode_bare_output_name:
  "isfile decode_world ''in.apk'' \<and> isdir decode_world ''out'' \<and>
   decode quiet_env ''apktool'' decode_world ''in.apk'' (Some ''out'') False =
     (Inl NotADirectoryError, decode_world) \<and>
   decode quiet_env ''apktool'' decode_world ''in.apk'' (Some ''out'') True =
     (Inl NotADirectoryError, decode_world)"
  by (simp add: decode_def isfile_def isdir_def stat_def decode_world_def world_of_def
      resolve_output_dir_def path_dirname_def rfind_def)

text \<open>
  The same holds for every output name without a slash: it never resolves.
\<close>

lemma bare_output_name_unresolved:
  "d \<noteq> [] \<Longrightarrow> CHR ''/'' \<notin> set d \<Longrightarrow>
   resolve_output_dir w apk_path (Some d) = Inl NotADirectoryError"
  by (simp add: resolve_output_dir_def path_dirname_def rfind_def isdir_def stat_def)

text \<open>
  Where the output directory does resolve to some \<open>out_dir\<close> (it was left out, or the
  directory part of the given path is an existing directory), \<open>decode\<close> does what is
  asked: without \<open>force\<close> it fails with \<open>FileExistsError\<close> when \<open>out_dir\<close> is an
  existing directory, and nothing is run; with \<open>force\<close> the command run is exactly
  \<open>self d --force apk_path -o out_dir\<close>, \<open>--force\<close> right after \<open>d\<close>.
\<close>

lemma decode_existing_output_dir:
  "isfile w apk_path \<Longrightarrow> resolve_output_dir w apk_path output_dir_path = Inr out_dir \<Longrightarrow>
   (isdir w out_dir \<longrightarrow> decode e self w apk_path output_dir_path False = (Inl FileExistsError, w)) \<and>
   decode e self w apk_path output_dir_path True =
     run_tool e w [self, ''d'', ''--force'', apk_path, ''-o'', out_dir] \<and>
   invocations (snd (decode e self w apk_path output_dir_path True)) =
     invocations w @ [[self, ''d'', ''--force'', apk_path, ''-o'', out_dir]]"
  by (simp add: decode_def decode_cmd_def list_insert_def run_tool_invocations)

lemma dirname_work_out: "path_dirname ''work/out'' = ''work''"
  by code_simp

lemma decode_existing_output_dir_example:
  "isfile decode_world ''in.apk'' \<and>
   resolve_output_dir decode_world ''in.apk'' (Some ''work/out'') = Inr ''work/out'' \<and>
   isdir decode_world ''work/out'' \<and>
   decode quiet_env ''apktool'' decode_world ''in.apk'' (Some ''work/out'') False =
     (Inl FileExistsError, decode_world) \<and>
   invocations (snd (decode quiet_env ''apktool'' decode_world ''in.apk'' (Some ''work/out'') True)) =
     [[''apktool'', ''d'', ''--force'', ''in.apk'', ''-o'', ''work/out'']]"
proof -
  have f: "isfile decode_world ''in.apk''"
    by (simp add: isfile_def stat_def decode_world_def world_of_def)
  have r: "resolve_output_dir decode_world ''in.apk'' (Some ''work/out'') = Inr ''work/out''"
    by (simp add: resolve_output_dir_def dirname_work_out isdir_def stat_def decode_world_def
        world_of_def)
  have d: "isdir decode_world ''work/out''"
    by (simp add: isdir_def stat_def decode_world_def world_of_def)
  have i: "invocations decode_world = []"
    by (simp add: decode_world_def world_of_def)
  note t = decode_existing_output_dir [OF f r, of quiet_env "''apktool''"]
  show ?thesis
    using f r d i conjunct1 [OF t] conjunct2 [OF conjunct2 [OF t]]
    by simp
qed

text \<open>
  C8. An empty string given for an optional path is treated as the argument left out:
  \<open>decode\<close> with output directory \<open>''\<close> is \<open>decode\<close> without one (the output directory
  is the default one and the check of its parent is skipped), and \<open>build\<close> with output
  path \<open>''\<close> is \<open>build\<close> without one (no \<open>-o\<close> is appended).
\<close>

theorem empty_path_is_omitted:
  "decode e self w apk_path (Some []) force = decode e self w apk_path None force \<and>
   resolve_output_dir w apk_path (Some []) = Inr (default_output_dir apk_path) \<and>
   build e self w source_dir_path (Some []) = build e self w source_dir_path None \<and>
   build_cmd self source_dir_path (Some []) = [self, ''b'', ''--force-all'', source_dir_path]"
  by (simp add: decode_def resolve_output_dir_def build_def build_cmd_def)


section \<open>Removing the old signature\<close>

text \<open>
  C6. For an archive with no member under \<open>META-INF/\<close>, the \<open>try\<close> block of \<open>resign\<close>
  raises nothing and leaves the world as it was (nothing is written), and \<open>resign\<close> is
  then \<open>sign\<close> on that same world with the same four arguments: same result, same
  effects.
\<close>

theorem unsigned_archive_not_rewritten:
  "stat w apk_path = Some (RegularFile (ZipData a)) \<Longrightarrow> \<not> list_ex is_signature (infolist a) \<Longrightarrow>
   remove_signature e w apk_path = (None, w) \<and>
   resign e self w apk_path ks pw key_alias = sign e self w apk_path ks pw key_alias"
  by (simp add: resign_def remove_signature_def open_zip_def)

theorem unsigned_archive_not_rewritten_witness:
  "stat (app_world plain_apk) ''app.apk'' = Some (RegularFile (ZipData plain_apk)) \<and>
   \<not> list_ex is_signature (infolist plain_apk) \<and>
   remove_signature (failing_env WriteFails) (app_world plain_apk) ''app.apk'' =
     (None, app_world plain_apk) \<and>
   resign (failing_env WriteFails) ''jarsigner'' (app_world plain_apk) ''app.apk'' ''ks'' ''pw'' ''key'' =
     sign (failing_env WriteFails) ''jarsigner'' (app_world plain_apk) ''app.apk'' ''ks'' ''pw'' ''key''"
proof -
  have n: "\<not> list_ex is_signature (infolist plain_apk)"
    by (simp add: plain_apk_def member_def infolist_def is_signature_def startswith_def)
  show ?thesis
    using n unsigned_archive_not_rewritten [OF app_world_stat n]
    by (simp add: app_world_stat)
qed

lemma is_signature_iff: "is_signature entry \<longleftrightarrow> (\<exists>rest. filename entry = ''META-INF/'' @ rest)"
proof
  assume "is_signature entry"
  then have "take (length ''META-INF/'') (filename entry) = ''META-INF/''"
    by (simp only: is_signature_def startswith_def)
  then have "filename entry = ''META-INF/'' @ drop (length ''META-INF/'') (filename entry)"
    by (metis append_take_drop_id)
  then show "\<exists>rest. filename entry = ''META-INF/'' @ rest" ..
next
  assume "\<exists>rest. filename entry = ''META-INF/'' @ rest"
  then show "is_signature entry"
    by (auto simp: is_signature_def startswith_def)
qed

lemma lookalike_not_signature:
  "filename zi = ''META-INF'' \<or> startswith (filename zi) ''meta-inf/'' \<Longrightarrow> \<not> is_signature zi"
  by (auto simp: is_signature_def startswith_def)

text \<open>
  C10. A member counts as signature material exactly when its name is the nine characters
  \<open>META-INF/\<close> followed by anything: the comparison is character by character, with no
  case folding. So \<open>meta-inf/x\<close> and \<open>META-INF\<close> (no slash) do not count, and an archive
  whose members are all named \<open>META-INF\<close> or \<open>meta-inf/...\<close> is taken as unsigned:
  nothing is written and \<open>resign\<close> goes straight to \<open>sign\<close>.
\<close>

theorem signature_prefix_is_exact:
  "(is_signature entry \<longleftrightarrow> (\<exists>rest. filename entry = ''META-INF/'' @ rest)) \<and>
   \<not> is_signature \<lparr>filename = ''meta-inf/x'', attrs = hdr\<rparr> \<and>
   \<not> is_signature \<lparr>filename = ''META-INF'', attrs = hdr\<rparr> \<and>
   (stat w apk_path = Some (RegularFile (ZipData a)) \<and>
    list_all (\<lambda>zi. filename zi = ''META-INF'' \<or> startswith (filename zi) ''meta-inf/'') (infolist a)
    \<longrightarrow> remove_signature e w apk_path = (None, w) \<and>
        resign e self w apk_path ks pw key_alias = sign e self w apk_path ks pw key_alias)"
proof -
  have "\<not> list_ex is_signature (infolist a)"
    if "list_all (\<lambda>zi. filename zi = ''META-INF'' \<or> startswith (filename zi) ''meta-inf/'') (infolist a)"
    using that lookalike_not_signature by (auto simp: list_all_iff list_ex_iff)
  then show ?thesis
    using is_signature_iff [of entry]
    by (auto simp: resign_def remove_signature_def open_zip_def is_signature_def startswith_def)
qed

theorem signature_prefix_is_exact_witness:
  "stat (app_world lookalike_apk) ''app.apk'' = Some (RegularFile (ZipData lookalike_apk)) \<and>
   list_all (\<lambda>zi. filename zi = ''META-INF'' \<or> startswith (filename zi) ''meta-inf/'')
     (infolist lookalike_apk) \<and>
   remove_signature quiet_env (app_world lookalike_apk) ''app.apk'' =
     (None, app_world lookalike_apk) \<and>
   resign quiet_env ''jarsigner'' (app_world lookalike_apk) ''app.apk'' ''ks'' ''pw'' ''key'' =
     sign quiet_env ''jarsigner'' (app_world lookalike_apk) ''app.apk'' ''ks'' ''pw'' ''key''"
proof -
  have l: "list_all (\<lambda>zi. filename zi = ''META-INF'' \<or> startswith (filename zi) ''meta-inf/'')
     (infolist lookalike_apk)"
    by (simp add: lookalike_apk_def member_def infolist_def startswith_def)
  show ?thesis
    using l app_world_stat [of lookalike_apk]
      signature_prefix_is_exact [where w = "app_world lookalike_apk" and apk_path = "''app.apk''"
        and a = lookalike_apk and e = quiet_env and self = "''jarsigner''" and ks = "''ks''"
        and pw = "''pw''" and key_alias = "''key''"]
    by simp
qed

text \<open>
  C2, as stated, fails on the code. On a signed archive, when the file has been opened
  for writing and the write then fails, \<open>resign\<close> raises \<open>OSError\<close> and the archive on
  disk is no longer what it was: it is left truncated.
\<close>

theorem resign_write_fault_truncates:
  "resign (failing_env WriteFails) ''jarsigner'' (app_world signed_apk)
      ''app.apk'' ''ks'' ''pw'' ''key'' =
     (Inl OSError,
      \<lparr>fs = (fs (app_world signed_apk))(''app.apk'' \<mapsto> RegularFile (RawData [])),
       invocations = []\<rparr>) \<and>
   fs (snd (resign (failing_env WriteFails) ''jarsigner'' (app_world signed_apk)
      ''app.apk'' ''ks'' ''pw'' ''key'')) ''app.apk''
   \<noteq> fs (app_world signed_apk) ''app.apk''"
  by (simp add: resign_def remove_signature_def open_zip_def stat_def app_world_def world_of_def
      signed_apk_def member_def infolist_def is_signature_def startswith_def zip_read_def
      writestr_def write_back_def failing_env_def)

text \<open>
  C2, amended. Whatever fails in the \<open>try\<close> block of \<open>resign\<close> is re-raised as the
  exception it is (the code has no exception class of its own), and \<open>sign\<close> is not
  called. When the failure comes before the write, the world is unchanged: when the
  archive cannot be opened, when reading a member raises while the replacement is built
  in memory (whatever the disk would have done afterwards: the replacement is complete
  before the file is opened for writing), and when the file cannot be opened for writing.
  When the write into the opened file fails, its \<open>OSError\<close> is re-raised too and no child
  process is run; nothing is then said of the file's content.
\<close>

theorem resign_failure_before_write_back:
  "(open_zip w p = Inl x \<longrightarrow> resign e self w p ks pw key_alias = (Inl x, w)) \<and>
   (open_zip w p = Inr a \<and> list_ex is_signature (infolist a) \<and>
      write_unsigned a (infolist a) [] = Inl x
      \<longrightarrow> resign e self w p ks pw key_alias = (Inl x, w)) \<and>
   (open_zip w p = Inr a \<and> list_ex is_signature (infolist a) \<and>
      write_unsigned a (infolist a) [] = Inr buf \<and> disk_fault e = OpenFails
      \<longrightarrow> resign e self w p ks pw key_alias = (Inl OSError, w)) \<and>
   (open_zip w p = Inr a \<and> list_ex is_signature (infolist a) \<and>
      write_unsigned a (infolist a) [] = Inr buf \<and> disk_fault e = WriteFails
      \<longrightarrow> fst (resign e self w p ks pw key_alias) = Inl OSError \<and>
          invocations (snd (resign e self w p ks pw key_alias)) = invocations w) \<and>
   (fst (remove_signature e w p) = Some x
      \<longrightarrow> resign e self w p ks pw key_alias = (Inl x, snd (remove_signature e w p))) \<and>
   (fst (remove_signature e w p) = Some x \<and> disk_fault e \<noteq> WriteFails
      \<longrightarrow> snd (remove_signature e w p) = w)"
  by (auto simp: resign_def remove_signature_def write_back_def
      split: sum.splits disk_fault.splits if_splits prod.splits)

theorem resign_failure_before_write_back_witness:
  "open_zip junk_world ''app.apk'' = Inl BadZipFile \<and>
   resign quiet_env ''jarsigner'' junk_world ''app.apk'' ''ks'' ''pw'' ''key'' =
     (Inl BadZipFile, junk_world) \<and>
   open_zip (app_world damaged_apk) ''app.apk'' = Inr damaged_apk \<and>
   list_ex is_signature (infolist damaged_apk) \<and>
   write_unsigned damaged_apk (infolist damaged_apk) [] = Inl RuntimeError \<and>
   resign (failing_env WriteFails) ''jarsigner'' (app_world damaged_apk) ''app.apk'' ''ks'' ''pw'' ''key'' =
     (Inl RuntimeError, app_world damaged_apk) \<and>
   open_zip (app_world signed_apk) ''app.apk'' = Inr signed_apk \<and>
   list_ex is_signature (infolist signed_apk) \<and>
   write_unsigned signed_apk (infolist signed_apk) [] = Inr [member ''classes.dex'' [1] ''code''] \<and>
   disk_fault (failing_env OpenFails) = OpenFails \<and>
   resign (failing_env OpenFails) ''jarsigner'' (app_world signed_apk) ''app.apk'' ''ks'' ''pw'' ''key'' =
     (Inl OSError, app_world signed_apk) \<and>
   disk_fault (failing_env WriteFails) = WriteFails \<and>
   fst (resign (failing_env WriteFails) ''jarsigner'' (app_world signed_apk) ''app.apk''
         ''ks'' ''pw'' ''key'') = Inl OSError \<and>
   invocations (snd (resign (failing_env WriteFails) ''jarsigner'' (app_world signed_apk) ''app.apk''
         ''ks'' ''pw'' ''key'')) = [] \<and>
   fst (remove_signature (failing_env OpenFails) (app_world signed_apk) ''app.apk'') = Some OSError \<and>
   disk_fault (failing_env OpenFails) \<noteq> WriteFails \<and>
   snd (remove_signature (failing_env OpenFails) (app_world signed_apk) ''app.apk'') =
     app_world signed_apk"
proof -
  have j: "open_zip junk_world ''app.apk'' = Inl BadZipFile"
    by (simp add: open_zip_def stat_def junk_world_def world_of_def)
  have d1: "open_zip (app_world damaged_apk) ''app.apk'' = Inr damaged_apk"
    by (simp add: open_zip_def app_world_stat)
  have d2: "list_ex is_signature (infolist damaged_apk)"
    by (simp add: damaged_apk_def member_def infolist_def is_signature_def startswith_def)
  have d3: "write_unsigned damaged_apk (infolist damaged_apk) [] = Inl RuntimeError"
    by (simp add: damaged_apk_def member_def infolist_def is_signature_def startswith_def
        zip_read_def)
  have s1: "open_zip (app_world signed_apk) ''app.apk'' = Inr signed_apk"
    by (simp add: open_zip_def app_world_stat)
  have s2: "list_ex is_signature (infolist signed_apk)"
    by (simp add: signed_apk_def member_def infolist_def is_signature_def startswith_def)
  have s3: "write_unsigned signed_apk (infolist signed_apk) [] = Inr [member ''classes.dex'' [1] ''code'']"
    by (simp add: signed_apk_def member_def infolist_def is_signature_def startswith_def
        zip_read_def writestr_def)
  have s4: "disk_fault (failing_env OpenFails) = OpenFails"
    by (simp add: failing_env_def)
  have s5: "fst (remove_signature (failing_env OpenFails) (app_world signed_apk) ''app.apk'') =
      Some OSError"
    by (simp add: remove_signature_def s1 s2 s3 s4 write_back_def)
  have s6: "disk_fault (failing_env WriteFails) = WriteFails"
    by (simp add: failing_env_def)
  have i: "invocations (app_world signed_apk) = []"
    by (simp add: app_world_def world_of_def)
  note t1 = resign_failure_before_write_back [where w = junk_world and p = "''app.apk''"
        and x = BadZipFile and e = quiet_env and self = "''jarsigner''" and ks = "''ks''"
        and pw = "''pw''" and key_alias = "''key''"]
  note t2 = resign_failure_before_write_back [where w = "app_world damaged_apk" and p = "''app.apk''"
        and x = RuntimeError and a = damaged_apk and e = "failing_env WriteFails"
        and self = "''jarsigner''" and ks = "''ks''" and pw = "''pw''" and key_alias = "''key''"]
  note t3 = resign_failure_before_write_back [where w = "app_world signed_apk" and p = "''app.apk''"
        and a = signed_apk and buf = "[member ''classes.dex'' [1] ''code'']"
        and e = "failing_env OpenFails" and x = OSError
        and self = "''jarsigner''" and ks = "''ks''" and pw = "''pw''" and key_alias = "''key''"]
  note t4 = resign_failure_before_write_back [where w = "app_world signed_apk" and p = "''app.apk''"
        and a = signed_apk and buf = "[member ''classes.dex'' [1] ''code'']"
        and e = "failing_env WriteFails"
        and self = "''jarsigner''" and ks = "''ks''" and pw = "''pw''" and key_alias = "''key''"]
  show ?thesis
    using j d1 d2 d3 s1 s2 s3 s4 s5 s6 i t1 t2 t3 t4
    by simp
qed

text \<open>
  C1 asks that the rewritten archive hold every member outside \<open>META-INF/\<close> with its
  own header and content. The loop reads each member back by name,
  \<open>current_apk.read(entry.filename)\<close>, and a name that occurs twice is answered with the
  data of its last occurrence: in the archive below the first \<open>res/a.txt\<close> held
  \<open>first\<close>, and after the rewrite both members of that name hold \<open>second\<close>.
\<close>

theorem resign_duplicate_names:
  "remove_signature quiet_env (app_world duplicate_apk) ''app.apk'' =
     (None, app_world [member ''res/a.txt'' [1] ''second'', member ''res/a.txt'' [2] ''second'']) \<and>
   member ''res/a.txt'' [1] ''first'' \<in> set duplicate_apk \<and>
   member ''res/a.txt'' [1] ''first'' \<notin>
     set [member ''res/a.txt'' [1] ''second'', member ''res/a.txt'' [2] ''second'']"
  by (simp add: remove_signature_def open_zip_def stat_def app_world_def world_of_def
      duplicate_apk_def member_def infolist_def is_signature_def startswith_def zip_read_def
      writestr_def write_back_def quiet_env_def)

text \<open>
  When no two members share a name, every member can be read and the disk does not
  fail, the rewrite is the one intended: the file then holds exactly the members outside
  \<open>META-INF/\<close>, in their order, each with its header and its data.
\<close>

lemma filter_same_key:
  "distinct (map f xs) \<Longrightarrow> x \<in> set xs \<Longrightarrow> filter (\<lambda>y. f y = f x) xs = [x]"
proof (induction xs)
  case Nil
  then show ?case by simp
next
  case (Cons y ys)
  show ?case
  proof (cases "x = y")
    case True
    have "filter (\<lambda>z. f z = f y) ys = []"
      using Cons.prems(1) by (auto simp: filter_empty_conv image_iff)
    then show ?thesis using True by simp
  next
    case False
    then have "x \<in> set ys" using Cons.prems(2) by simp
    moreover have "f y \<noteq> f x" using Cons.prems(1) \<open>x \<in> set ys\<close> by auto
    ultimately show ?thesis using Cons by simp
  qed
qed

lemma zip_read_unique:
  "distinct (map (\<lambda>m. filename (fst m)) a) \<Longrightarrow> (zi, Inr d) \<in> set a \<Longrightarrow>
   zip_read a (filename zi) = Inr d"
  using filter_same_key [of "\<lambda>m. filename (fst m)" a "(zi, Inr d)"]
  by (simp add: zip_read_def)

lemma write_unsigned_keeps:
  "distinct (map (\<lambda>m. filename (fst m)) a) \<Longrightarrow> set xs \<subseteq> set a \<Longrightarrow> list_all (\<lambda>m. \<not> isl (snd m)) xs \<Longrightarrow>
   write_unsigned a (infolist xs) buf = Inr (buf @ filter (\<lambda>m. \<not> is_signature (fst m)) xs)"
proof (induction xs arbitrary: buf)
  case Nil
  then show ?case by (simp add: infolist_def)
next
  case (Cons x xs)
  obtain zi d where x: "x = (zi, Inr d)"
    using Cons.prems(3) by (cases x; cases "snd x") auto
  have r: "zip_read a (filename zi) = Inr d"
    using Cons.prems(1,2) x by (intro zip_read_unique) auto
  have ih: "write_unsigned a (infolist xs) b = Inr (b @ filter (\<lambda>m. \<not> is_signature (fst m)) xs)" for b
    using Cons by simp
  show ?case
    using r ih by (simp add: infolist_def x writestr_def)
qed

lemma resign_strips_signature:
  assumes "stat w apk_path = Some (RegularFile (ZipData a))"
    and "list_ex is_signature (infolist a)"
    and "distinct (map (\<lambda>m. filename (fst m)) a)"
    and "list_all (\<lambda>m. \<not> isl (snd m)) a"
    and "disk_fault e = NoFault"
  shows "remove_signature e w apk_path =
    (None, w\<lparr>fs := (fs w)(apk_path \<mapsto> RegularFile (ZipData (filter (\<lambda>m. \<not> is_signature (fst m)) a)))\<rparr>)"
  using assms write_unsigned_keeps [of a a "[]"]
  by (simp add: remove_signature_def open_zip_def write_back_def)

lemma stripped_has_no_signature:
  "\<not> list_ex is_signature (infolist (filter (\<lambda>m. \<not> is_signature (fst m)) a))"
  by (auto simp: infolist_def list_ex_iff)


section \<open>The temporary copy of \<open>align\<close>\<close>

subsection \<open>Its path\<close>

lemma nat_int_Suc: "nat (int n + 1) = Suc n"
  by simp

lemma rfind_last: "c \<notin> set zs \<Longrightarrow> rfind (ys @ c # zs) c = int (length ys)"
proof -
  assume a: "c \<notin> set zs"
  have "takeWhile (\<lambda>x. x \<noteq> c) (rev zs @ c # rev ys) = rev zs"
    using a by (subst takeWhile_append2) auto
  then show ?thesis by (simp add: rfind_def)
qed

lemma rfind_none: "c \<notin> set s \<Longrightarrow> rfind s c = - 1"
  by (simp add: rfind_def)

lemma rfind_ge: "- 1 \<le> rfind s c"
proof (cases "c \<in> set s")
  case True
  then obtain ys zs where "s = ys @ c # zs" "c \<notin> set zs"
    using split_list_last by fastforce
  then show ?thesis by (simp add: rfind_last)
next
  case False
  then show ?thesis by (simp add: rfind_none)
qed

lemma basename_no_sep: "CHR ''/'' \<notin> set s \<Longrightarrow> path_basename s = s"
  by (simp add: path_basename_def rfind_none)

lemma basename_after_sep: "CHR ''/'' \<notin> set zs \<Longrightarrow> path_basename (ys @ CHR ''/'' # zs) = zs"
  by (simp add: path_basename_def rfind_last nat_int_Suc)

lemma basename_has_no_sep: "CHR ''/'' \<notin> set (path_basename p)"
proof (cases "CHR ''/'' \<in> set p")
  case True
  then obtain ys zs where "p = ys @ CHR ''/'' # zs" "CHR ''/'' \<notin> set zs"
    using split_list_last by fastforce
  then show ?thesis by (simp add: basename_after_sep)
next
  case False
  then show ?thesis by (simp add: basename_no_sep)
qed

lemma splitext_append: "fst (path_splitext q) @ snd (path_splitext q) = q"
  by (simp add: path_splitext_def Let_def)

lemma splitext_ext:
  "snd (path_splitext q) = [] \<or>
   (\<exists>r. snd (path_splitext q) = CHR ''.'' # r \<and> CHR ''.'' \<notin> set r)"
proof (cases "CHR ''.'' \<in> set q")
  case True
  then obtain ys zs where q: "q = ys @ CHR ''.'' # zs" and zs: "CHR ''.'' \<notin> set zs"
    using split_list_last by fastforce
  have "rfind q (CHR ''.'') = int (length ys)"
    using zs by (simp add: q rfind_last)
  then show ?thesis
    using zs by (simp add: path_splitext_def Let_def q)
next
  case False
  then have "rfind q (CHR ''.'') = - 1" by (rule rfind_none)
  moreover have "- 1 \<le> rfind q (CHR ''/'')" by (rule rfind_ge)
  ultimately show ?thesis by (simp add: path_splitext_def Let_def)
qed

lemma endswith_sep: "endswith a ''/'' \<Longrightarrow> \<exists>a'. a = a' @ ''/''"
proof -
  assume "endswith a ''/''"
  then have "drop (length a - 1) a = ''/''" by (simp add: endswith_def)
  then have "a = take (length a - 1) a @ ''/''" by (metis append_take_drop_id)
  then show ?thesis ..
qed

lemma basename_join:
  assumes "CHR ''/'' \<notin> set b" "CHR ''/'' \<notin> set s"
  shows "path_basename (path_join a b @ s) = b @ s"
proof -
  have nb: "\<not> startswith b ''/''"
    using assms(1) by (cases b) (auto simp: startswith_def)
  have ns: "CHR ''/'' \<notin> set (b @ s)" using assms by simp
  show ?thesis
  proof (cases "a = []")
    case True
    then show ?thesis using nb ns by (simp add: path_join_def basename_no_sep)
  next
    case False
    show ?thesis
    proof (cases "endswith a ''/''")
      case True
      then obtain a' where "a = a' @ ''/''" using endswith_sep by blast
      then have "path_join a b @ s = a' @ CHR ''/'' # (b @ s)"
        using nb True by (simp add: path_join_def)
      then show ?thesis using ns basename_after_sep by metis
    next
      case e: False
      have "path_join a b @ s = a @ CHR ''/'' # (b @ s)"
        using nb e False by (simp add: path_join_def)
      then show ?thesis using ns basename_after_sep by metis
    qed
  qed
qed

lemma apk_copy_path_differs: "apk_copy_path p \<noteq> p"
proof
  assume eq: "apk_copy_path p = p"
  let ?b = "path_basename p"
  let ?stem = "fst (path_splitext ?b)"
  let ?ext = "snd (path_splitext ?b)"
  have b: "?stem @ ?ext = ?b" by (rule splitext_append)
  have "CHR ''/'' \<notin> set ?b" by (rule basename_has_no_sep)
  then have "CHR ''/'' \<notin> set ?stem" using b by (metis Un_iff set_append)
  then have "path_basename (apk_copy_path p) = ?stem @ ''.copy.apk''"
    unfolding apk_copy_path_def by (intro basename_join) simp_all
  then have "?stem @ ?ext = ?stem @ ''.copy.apk''" using eq b by simp
  then have "?ext = ''.copy.apk''" by simp
  then show False using splitext_ext [of ?b] by auto
qed



subsection \<open>Its life\<close>


lemma align_finally_quiet: "remove_error e = None \<Longrightarrow> fst (align_finally e w c) = None"
  by (simp add: align_finally_def os_remove_def)

lemma align_snd:
  "isfile w apk_path \<Longrightarrow>
   snd (align e self w apk_path) =
     snd (align_finally e (snd (align_try e self w apk_path)) (apk_copy_path apk_path))"
  by (simp add: align_def split: prod.split option.split)



lemma copy2_samefile:
  "stat w src = Some (RegularFile c) \<Longrightarrow> isfile w dst \<Longrightarrow> samefile e src dst \<Longrightarrow>
   copy2 e w src dst = (Some SameFileError, w)"
  by (auto simp: copy2_def isfile_def isdir_def split: option.splits node.splits)

lemma copy2_other_file:
  "stat w src = Some (RegularFile c) \<Longrightarrow> \<not> isdir w dst \<Longrightarrow> dst \<noteq> src \<Longrightarrow>
   stat w dst = None \<or> \<not> samefile e src dst \<Longrightarrow>
   copy2 e w src dst =
     (case disk_fault e of
        OpenFails \<Rightarrow> (Some OSError, w)
      | WriteFails \<Rightarrow> (Some OSError, w\<lparr>fs := (fs w)(dst \<mapsto> RegularFile (RawData []))\<rparr>)
      | NoFault \<Rightarrow> (None, w\<lparr>fs := (fs w)(dst \<mapsto> RegularFile c)\<rparr>))"
  by (auto simp: copy2_def Let_def)





lemma occupied_copy_path: "apk_copy_path ''app.apk'' = ''app.copy.apk''"
  by code_simp

lemma occupied_target:
  "path_join ''app.copy.apk'' (path_basename ''app.apk'') = ''app.copy.apk/app.apk''"
  by code_simp

text \<open>
  C5 asks that the temporary copy never outlive \<open>align\<close>. When a directory already sits
  at the temporary path, \<open>shutil.copy2\<close> puts the copy inside that directory, under the
  archive's base name; the \<open>finally\<close> clause then finds no regular file at the temporary
  path and removes nothing. Below, \<open>app.copy.apk/app.apk\<close> did not exist before the
  call and holds the copy after it.
\<close>

theorem align_leaks_into_directory:
  "fs occupied_world ''app.copy.apk/app.apk'' = None \<and>
   align (failing_env NoFault) ''zipalign'' occupied_world ''app.apk'' =
     (Inl (CalledProcessError 1 ''error''),
      \<lparr>fs = (fs occupied_world)(''app.copy.apk/app.apk'' \<mapsto> RegularFile (ZipData signed_apk)),
       invocations = [[''zipalign'', ''-f'', ''4'', ''app.copy.apk'', ''app.apk'']]\<rparr>)"
  by (simp add: align_def align_try_def align_finally_def align_cmd_def copy2_def occupied_copy_path
      occupied_target isfile_def isdir_def stat_def occupied_world_def world_of_def failing_env_def
      run_tool_def check_output_def inert_program_def)

text \<open>
  Everywhere else the clean-up does its work. With no directory at the temporary path,
  a tool that leaves the files alone and an \<open>os.remove\<close> that does not fail, \<open>align\<close>
  ends, on each of its paths (the copy is refused or fails, the tool cannot be started,
  it exits with an error, it succeeds), with the file system it started from minus
  whatever was at the temporary path.
\<close>

lemma align_inert_frame:
  assumes "isfile w apk_path" "\<not> isdir w (apk_copy_path apk_path)"
    and "program e = inert_program rc out" "remove_error e = None"
  shows "fs (snd (align e self w apk_path)) = (fs w)(apk_copy_path apk_path := None)"
proof -
  let ?c = "apk_copy_path apk_path"
  obtain c where s: "stat w apk_path = Some (RegularFile c)"
    using assms(1) by (auto simp: isfile_def split: option.splits node.splits)
  have ne: "?c \<noteq> []" by (simp add: apk_copy_path_def)
  have absent: "fs w ?c = None" if "\<not> isfile w ?c"
    using that assms(2) ne
    by (cases "fs w ?c") (auto simp: isfile_def isdir_def stat_def split: node.splits)
  have inert: "fs (snd (run_tool e w' cmd)) = fs w'" for w' cmd
    by (simp add: run_tool_def check_output_def assms(3) inert_program_def)
  have fin: "fs (snd (align_finally e w' ?c)) = (fs w')(?c := None)"
    if "isfile w' ?c \<or> fs w' ?c = None" for w'
    using that assms(4) by (auto simp: align_finally_def os_remove_def)
  have unchanged: "fs (snd (align_finally e w ?c)) = (fs w)(?c := None)"
    using fin [of w] absent by (cases "isfile w ?c") simp_all
  have written: "fs (snd (align_finally e w' ?c)) = (fs w)(?c := None)"
    if "fs w' = (fs w)(?c \<mapsto> RegularFile k)" for w' k
  proof -
    have "isfile w' ?c" using that ne by (simp add: isfile_def stat_def)
    then show ?thesis using fin [of w'] that by simp
  qed
  show ?thesis
  proof (cases "stat w ?c \<noteq> None \<and> samefile e apk_path ?c")
    case True
    then have "isfile w ?c"
      using assms(2) by (auto simp: isfile_def isdir_def split: option.splits node.splits)
    then have "align_try e self w apk_path = (Inl SameFileError, w)"
      using copy2_samefile [OF s _ conjunct2 [OF True]] by (simp add: align_try_def)
    then show ?thesis using assms(1) unchanged by (simp add: align_snd)
  next
    case False
    then have "stat w ?c = None \<or> \<not> samefile e apk_path ?c" by auto
    note cp = copy2_other_file [OF s assms(2) apk_copy_path_differs this]
    show ?thesis
    proof (cases "disk_fault e")
      case NoFault
      then have "align_try e self w apk_path =
          run_tool e (w\<lparr>fs := (fs w)(?c \<mapsto> RegularFile c)\<rparr>) (align_cmd self ?c apk_path)"
        using cp by (simp add: align_try_def)
      then have "fs (snd (align_try e self w apk_path)) = (fs w)(?c \<mapsto> RegularFile c)"
        by (simp add: inert)
      then show ?thesis using assms(1) written by (simp add: align_snd)
    next
      case OpenFails
      then have "align_try e self w apk_path = (Inl OSError, w)"
        using cp by (simp add: align_try_def)
      then show ?thesis using assms(1) unchanged by (simp add: align_snd)
    next
      case WriteFails
      then have "align_try e self w apk_path =
          (Inl OSError, w\<lparr>fs := (fs w)(?c \<mapsto> RegularFile (RawData []))\<rparr>)"
        using cp by (simp add: align_try_def)
      then have "fs (snd (align_try e self w apk_path)) = (fs w)(?c \<mapsto> RegularFile (RawData []))"
        by simp
      then show ?thesis using assms(1) written by (simp add: align_snd)
    qed
  qed
qed

end
